theory Spec2Isabelle
  imports Complex_Main
begin

section \<open>Data model\<close>

text \<open>
  A Python float is either NaN or a number.  Only the distinction between NaN and
  the other values matters to the code below, so the numbers are reals (infinities
  and rounding are left out).
\<close>

datatype flt = NaN | Flt real

text \<open>
  A numpy array is represented by its entries in row-major order; none of the
  operations of this file depends on the shape.
\<close>

type_synonym ndarray = "flt list"

text \<open>
  One row of the label table \<^verbatim>\<open>self.labels\<close> (a data frame with the columns
  \<^verbatim>\<open>lat\<close>, \<^verbatim>\<open>lon\<close> and the nullable \<^verbatim>\<open>crop_type\<close>).
  The table itself is the list of its rows, in the order of the frame.  Coordinates
  are reals: a NaN coordinate, for which every comparison is false, is left out.
\<close>

record label =
  lat :: real
  lon :: real
  crop_type :: "string option"

text \<open>
  The raster \<^verbatim>\<open>da\<close> returned by \<^verbatim>\<open>load_tif\<close>: the coordinate vectors
  \<^verbatim>\<open>da.x\<close> and \<^verbatim>\<open>da.y\<close>, and the selection by coordinate value
  \<^verbatim>\<open>da.sel(x=..).sel(y=..).values\<close>.
\<close>

record dataarray =
  x_coord :: "real list"
  y_coord :: "real list"
  sel :: "real \<Rightarrow> real \<Rightarrow> ndarray"

text \<open>
  \<^verbatim>\<open>BaseDataInstance\<close> is imported from \<^verbatim>\<open>.base\<close>; its fields are the keyword
  arguments the constructor call of \<^verbatim>\<open>process_single_file\<close> passes besides
  \<^verbatim>\<open>crop_label\<close> and \<^verbatim>\<open>crop_int\<close>.  \<^verbatim>\<open>labelled_array\<close> is stored only
  after the test \<^verbatim>\<open>labelled_array is not None\<close>; \<^verbatim>\<open>surrounding_array\<close> is
  stored as \<^verbatim>\<open>maxed_nan_to_num\<close> returned it.
\<close>

record BaseDataInstance =
  label_lat :: real
  label_lon :: real
  instance_lat :: real
  instance_lon :: real
  labelled_array :: ndarray
  surrounding_array :: "ndarray option"

record PVKenyaDataInstance = BaseDataInstance +
  crop_label :: string
  crop_int :: int

text \<open>
  A normalization accumulator: the count of folded samples and the per-channel
  mean and variance accumulators, whose representation \<^typ>\<open>'s\<close> is left open.
\<close>

record 's accumulator =
  n_samples :: nat
  stats :: 's

text \<open>The fields of \<^verbatim>\<open>self\<close> that \<^verbatim>\<open>PVKenyaEngineer\<close> reads or writes.\<close>

record 's PVKenyaEngineer =
  labels :: "label list"
  classes_to_index :: "string \<rightharpoonup> int"
  normalizing_dict_interim :: "'s accumulator"
  surrounding_normalizing_dict_interim :: "'s accumulator"

datatype error = ValueError | KeyError

section \<open>The class index built by \<^verbatim>\<open>__init__\<close>\<close>

text \<open>
  \<^verbatim>\<open>Series.unique()\<close>: the distinct values of a column in the order of their
  first appearance.
\<close>

fun unique :: "'a list \<Rightarrow> 'a list" where
  "unique [] = []"
| "unique (v # vs) = v # unique (filter (\<lambda>u. u \<noteq> v) vs)"

text \<open>\<^verbatim>\<open>enumerate\<close>, counting from the given start.\<close>

fun enumerate_from :: "int \<Rightarrow> 'a list \<Rightarrow> (int \<times> 'a) list" where
  "enumerate_from i [] = []"
| "enumerate_from i (v # vs) = (i, v) # enumerate_from (i + 1) vs"

text \<open>
  The dict comprehension \<^verbatim>\<open>{crop: idx for idx, crop in pairs}\<close>: the pairs are
  stored one after the other, a later pair replacing an earlier one with the same key.
\<close>

definition dict_comprehension :: "(int \<times> 'k) list \<Rightarrow> ('k \<rightharpoonup> int)" where
  "dict_comprehension pairs = fold (\<lambda>(idx, crop) d. d(crop \<mapsto> idx)) pairs Map.empty"

text \<open>
  \<^verbatim>\<open>PVKenyaEngineer.__init__\<close>.  The base class constructor (not part of this
  file) stores the label table read by \<^verbatim>\<open>read_labels\<close> and the two accumulators;
  they are the arguments here.  The mask \<^verbatim>\<open>unique_classes != np.array(None)\<close>
  keeps the non-null classes.  Writing \<^verbatim>\<open>classes_to_index.json\<close> does not change
  \<^verbatim>\<open>self\<close> and is left out.
\<close>

definition init :: "label list \<Rightarrow> 's accumulator \<Rightarrow> 's accumulator \<Rightarrow> 's PVKenyaEngineer" where
  "init label_table acc surrounding_acc =
     (let unique_classes = unique (map crop_type label_table)
      in \<lparr> labels = label_table,
           classes_to_index =
             dict_comprehension
               (enumerate_from 0 (map the (filter (\<lambda>c. c \<noteq> None) unique_classes))),
           normalizing_dict_interim = acc,
           surrounding_normalizing_dict_interim = surrounding_acc \<rparr>)"

section \<open>Collaborators of the base class\<close>

text \<open>
  \<^verbatim>\<open>process_single_file\<close> calls methods that \<^verbatim>\<open>PVKenyaEngineer\<close> inherits
  from \<^verbatim>\<open>BaseEngineer\<close> (module \<^verbatim>\<open>.base\<close>, not part of this file).
  \<^verbatim>\<open>find_nearest\<close>, \<^verbatim>\<open>maxed_nan_to_num\<close> and \<^verbatim>\<open>update_normalizing_values\<close>
  are modelled below from the specification; the others are parameters of the model,
  collected in a record.  \<^verbatim>\<open>process_autoencoder\<close> is a method of \<^verbatim>\<open>self\<close>:
  it receives the engineer and returns it, possibly changed, with its result.
  \<^verbatim>\<open>welford\<close> is the incremental update of the per-channel mean and variance
  accumulators, given the new sample count.
\<close>

record 's helpers =
  get_surrounding_pixels :: "dataarray \<Rightarrow> nat \<Rightarrow> nat \<Rightarrow> ndarray"
  calculate_ndvi :: "ndarray \<Rightarrow> ndarray"
  calculate_ndwi :: "ndarray \<Rightarrow> ndarray"
  welford :: "nat \<Rightarrow> 's \<Rightarrow> ndarray \<Rightarrow> 's"
  process_autoencoder ::
    "'s PVKenyaEngineer \<Rightarrow> dataarray \<Rightarrow> ndarray option \<Rightarrow> bool \<Rightarrow> bool \<Rightarrow> flt \<Rightarrow> bool \<Rightarrow> bool \<Rightarrow> int
       \<Rightarrow> ndarray option \<times> 's PVKenyaEngineer"

text \<open>
  Modelled from the spec: \<^verbatim>\<open>BaseEngineer.find_nearest\<close> is missing from the
  sources.  The specification (4.2): given a scalar target coordinate and the raster's
  coordinate vector, it returns the closest coordinate value and its integer index,
  ties broken by first occurrence in the vector.  An empty vector has no closest
  value.
\<close>

fun find_nearest :: "real list \<Rightarrow> real \<Rightarrow> (real \<times> nat) option" where
  "find_nearest [] target = None"
| "find_nearest (a # as) target =
     (case find_nearest as target of
        None \<Rightarrow> Some (a, 0)
      | Some (b, idx) \<Rightarrow>
          if \<bar>a - target\<bar> \<le> \<bar>b - target\<bar> then Some (a, 0) else Some (b, Suc idx))"

text \<open>
  The fraction of NaN entries of an array.  The specification says nothing about an
  array without entries; the quotient is then 0, as division by zero is in HOL.
\<close>

definition nan_ratio :: "ndarray \<Rightarrow> real" where
  "nan_ratio array = real (length (filter (\<lambda>v. v = NaN) array)) / real (length array)"

definition nan_to_num :: "ndarray \<Rightarrow> flt \<Rightarrow> ndarray" where
  "nan_to_num array nan = map (\<lambda>v. if v = NaN then nan else v) array"

text \<open>
  Modelled from the spec: \<^verbatim>\<open>BaseEngineer.maxed_nan_to_num\<close> is missing from the
  sources.  The specification (4.5): it replaces NaN entries with \<^verbatim>\<open>nan_fill\<close>; if
  \<^verbatim>\<open>max_nan_ratio\<close> is given and the fraction of NaN entries in the array exceeds
  it, the instance is rejected (absent) rather than filled.
\<close>

definition maxed_nan_to_num :: "ndarray \<Rightarrow> flt \<Rightarrow> real option \<Rightarrow> ndarray option" where
  "maxed_nan_to_num array nan max_ratio =
     (case max_ratio of
        None \<Rightarrow> Some (nan_to_num array nan)
      | Some r \<Rightarrow> if nan_ratio array > r then None else Some (nan_to_num array nan))"

text \<open>
  Modelled from the spec: \<^verbatim>\<open>BaseEngineer.update_normalizing_values\<close> is missing
  from the sources.  The specification (3, 4.6, 8): the accumulator holds a count and
  mean and variance accumulators per feature channel; an extraction folds the array's
  per-channel statistics into it by an incremental mean/variance update, and its
  sample count is incremented by 1.  The accumulator is mutated by successful
  extractions only, so the absent array of a rejected instance folds nothing.
\<close>

definition update_normalizing_values ::
  "(nat \<Rightarrow> 's \<Rightarrow> ndarray \<Rightarrow> 's) \<Rightarrow> 's accumulator \<Rightarrow> ndarray option \<Rightarrow> 's accumulator" where
  "update_normalizing_values upd norm_dict array =
     (case array of
        None \<Rightarrow> norm_dict
      | Some a \<Rightarrow>
          \<lparr> n_samples = n_samples norm_dict + 1,
            stats = upd (n_samples norm_dict + 1) (stats norm_dict) a \<rparr>)"

section \<open>\<^verbatim>\<open>process_single_file\<close>\<close>

text \<open>
  \<^verbatim>\<open>da.x.min()\<close> and \<^verbatim>\<open>da.x.max()\<close>: the reduction of an empty vector raises
  \<^verbatim>\<open>ValueError\<close>.
\<close>

definition amin :: "real list \<Rightarrow> error + real" where
  "amin vs = (case vs of [] \<Rightarrow> Inl ValueError | v # ws \<Rightarrow> Inr (fold min ws v))"

definition amax :: "real list \<Rightarrow> error + real" where
  "amax vs = (case vs of [] \<Rightarrow> Inl ValueError | v # ws \<Rightarrow> Inr (fold max ws v))"

text \<open>Sequencing of steps that may raise: the first error ends the call.\<close>

definition bind :: "error + 'a \<Rightarrow> ('a \<Rightarrow> error + 'b) \<Rightarrow> error + 'b" where
  "bind r f = (case r of Inl e \<Rightarrow> Inl e | Inr v \<Rightarrow> f v)"

text \<open>
  Lines 67 to 133 of \<^verbatim>\<open>process_single_file\<close>: the search for the label and the
  extraction of the labelled instance.  The raster \<^verbatim>\<open>da\<close> is the result of
  \<^verbatim>\<open>load_tif\<close> (line 65).  The result is the engineer after the updates of its
  accumulators, \<^verbatim>\<open>data_instance\<close> and \<^verbatim>\<open>labelled_array\<close>.  The look-up
  \<^verbatim>\<open>self.classes_to_index[crop_type]\<close> raises \<^verbatim>\<open>KeyError\<close> on a missing key.
  A prime marks a local variable whose name is also the name of a field.
\<close>

definition labelled_instance ::
  "'s helpers \<Rightarrow> 's PVKenyaEngineer \<Rightarrow> dataarray \<Rightarrow> flt \<Rightarrow> real \<Rightarrow> bool \<Rightarrow> bool \<Rightarrow> bool \<Rightarrow> bool
     \<Rightarrow> error + ('s PVKenyaEngineer \<times> PVKenyaDataInstance option \<times> ndarray option)" where
  "labelled_instance h self da nan_fill max_nan_ratio add_ndvi add_ndwi
       calculate_normalizing_dict is_test =
     bind (amin (x_coord da)) (\<lambda>min_lon.
     bind (amin (y_coord da)) (\<lambda>min_lat.
     bind (amax (x_coord da)) (\<lambda>max_lon.
     bind (amax (y_coord da)) (\<lambda>max_lat.
       let overlap = filter (\<lambda>l. lon l \<le> max_lon \<and> lon l \<ge> min_lon
                                  \<and> lat l \<le> max_lat \<and> lat l \<ge> min_lat) (labels self)
       in if length overlap = 0 then Inr (self, None, None)
          else
            let label_lat' = lat (hd overlap);
                label_lon' = lon (hd overlap)
            in (case crop_type (hd overlap) of
                  None \<Rightarrow> Inr (self, None, None)
                | Some crop \<Rightarrow>
                   (case classes_to_index self crop of
                      None \<Rightarrow> Inl KeyError
                    | Some crop_int' \<Rightarrow>
                       (case find_nearest (x_coord da) label_lon' of
                          None \<Rightarrow> Inl ValueError
                        | Some (closest_lon, lon_idx) \<Rightarrow>
                           (case find_nearest (y_coord da) label_lat' of
                              None \<Rightarrow> Inl ValueError
                            | Some (closest_lat, lat_idx) \<Rightarrow>
                               let labelled_np = sel da closest_lon closest_lat;
                                   surrounding_np = get_surrounding_pixels h da lat_idx lon_idx;
                                   labelled_np =
                                     (if add_ndvi then calculate_ndvi h labelled_np else labelled_np);
                                   surrounding_np =
                                     (if add_ndvi then calculate_ndvi h surrounding_np
                                      else surrounding_np);
                                   labelled_np =
                                     (if add_ndwi then calculate_ndwi h labelled_np else labelled_np);
                                   surrounding_np =
                                     (if add_ndwi then calculate_ndwi h surrounding_np
                                      else surrounding_np);
                                   labelled_array =
                                     maxed_nan_to_num labelled_np nan_fill (Some max_nan_ratio);
                                   surrounding_np = maxed_nan_to_num surrounding_np nan_fill None;
                                   self =
                                     (if (\<not> is_test) \<and> calculate_normalizing_dict
                                      then self
                                        \<lparr> normalizing_dict_interim :=
                                            update_normalizing_values (welford h)
                                              (normalizing_dict_interim self) labelled_array,
                                          surrounding_normalizing_dict_interim :=
                                            update_normalizing_values (welford h)
                                              (surrounding_normalizing_dict_interim self)
                                              surrounding_np \<rparr>
                                      else self);
                                   data_instance =
                                     (case labelled_array of
                                        Some la \<Rightarrow>
                                          Some \<lparr> label_lat = label_lat',
                                                 label_lon = label_lon',
                                                 instance_lat = closest_lat,
                                                 instance_lon = closest_lon,
                                                 labelled_array = la,
                                                 surrounding_array = surrounding_np,
                                                 crop_label = crop,
                                                 crop_int = crop_int' \<rparr>
                                      | None \<Rightarrow> None)
                               in Inr (self, data_instance, labelled_array)))))))))"

text \<open>
  \<^verbatim>\<open>process_single_file\<close>: the labelled part, then lines 135 to 149.  The result
  is the returned pair and the engineer after the call.
\<close>

definition process_single_file ::
  "'s helpers \<Rightarrow> 's PVKenyaEngineer \<Rightarrow> dataarray \<Rightarrow> flt \<Rightarrow> real \<Rightarrow> bool \<Rightarrow> bool \<Rightarrow> bool \<Rightarrow> bool
     \<Rightarrow> bool \<Rightarrow> int
     \<Rightarrow> error + ((PVKenyaDataInstance option \<times> ndarray option) \<times> 's PVKenyaEngineer)" where
  "process_single_file h self da nan_fill max_nan_ratio add_ndvi add_ndwi
       calculate_normalizing_dict is_test return_autoencoder_instances
       autoencoder_instances_per_label =
     bind (labelled_instance h self da nan_fill max_nan_ratio add_ndvi add_ndwi
             calculate_normalizing_dict is_test)
       (\<lambda>(self, data_instance, labelled_array).
          if return_autoencoder_instances
          then
            (case process_autoencoder h self da labelled_array add_ndvi add_ndwi nan_fill
                    is_test calculate_normalizing_dict autoencoder_instances_per_label of
               (autoencoder_instances, self) \<Rightarrow>
                 Inr ((data_instance, autoencoder_instances), self))
          else Inr ((data_instance, None), self))"

section \<open>Notions used in the statements\<close>

text \<open>The non-null entries of a column, in order.\<close>

definition non_null :: "'a option list \<Rightarrow> 'a list" where
  "non_null vs = map the (filter (\<lambda>c. c \<noteq> None) vs)"

text \<open>The position of the first occurrence of a value in a column.\<close>

definition first_seen :: "'a list \<Rightarrow> 'a \<Rightarrow> nat" where
  "first_seen col v = length (takeWhile (\<lambda>u. u \<noteq> v) col)"

text \<open>
  A label lies inside the tile's inclusive bounding box: between the least and the
  greatest entry of the raster's x and y coordinate vectors.
\<close>

definition inside_bounding_box :: "dataarray \<Rightarrow> label \<Rightarrow> bool" where
  "inside_bounding_box da l \<longleftrightarrow>
     Min (set (x_coord da)) \<le> lon l \<and> lon l \<le> Max (set (x_coord da))
     \<and> Min (set (y_coord da)) \<le> lat l \<and> lat l \<le> Max (set (y_coord da))"

text \<open>The rows of the label table inside the bounding box, in table order.\<close>

definition overlapping :: "dataarray \<Rightarrow> label list \<Rightarrow> label list" where
  "overlapping da label_table = filter (inside_bounding_box da) label_table"

text \<open>
  The nearest coordinate and its index (for an empty vector, which has none, the
  target itself and 0).
\<close>

definition nearest :: "real list \<Rightarrow> real \<Rightarrow> real \<times> nat" where
  "nearest vs target = (case find_nearest vs target of Some r \<Rightarrow> r | None \<Rightarrow> (target, 0))"

text \<open>The optional derivation of the NDVI and then of the NDWI channel.\<close>

definition derive_indices :: "'s helpers \<Rightarrow> bool \<Rightarrow> bool \<Rightarrow> ndarray \<Rightarrow> ndarray" where
  "derive_indices h add_ndvi add_ndwi array =
     (let with_ndvi = (if add_ndvi then calculate_ndvi h array else array)
      in if add_ndwi then calculate_ndwi h with_ndvi else with_ndvi)"

text \<open>
  The series of the raster cell nearest to a label and of its surrounding pixels,
  after the derivation of the indices and before the NaN handling.
\<close>

definition labelled_series :: "'s helpers \<Rightarrow> dataarray \<Rightarrow> label \<Rightarrow> bool \<Rightarrow> bool \<Rightarrow> ndarray" where
  "labelled_series h da l add_ndvi add_ndwi =
     derive_indices h add_ndvi add_ndwi
       (sel da (fst (nearest (x_coord da) (lon l))) (fst (nearest (y_coord da) (lat l))))"

definition surrounding_series :: "'s helpers \<Rightarrow> dataarray \<Rightarrow> label \<Rightarrow> bool \<Rightarrow> bool \<Rightarrow> ndarray" where
  "surrounding_series h da l add_ndvi add_ndwi =
     derive_indices h add_ndvi add_ndwi
       (get_surrounding_pixels h da (snd (nearest (y_coord da) (lat l)))
          (snd (nearest (x_coord da) (lon l))))"

text \<open>
  The engineer after the accumulators were offered the labelled array (possibly
  absent) and the filled surrounding array of a label.
\<close>

definition folded :: "'s helpers \<Rightarrow> 's PVKenyaEngineer \<Rightarrow> ndarray option \<Rightarrow> ndarray \<Rightarrow> 's PVKenyaEngineer" where
  "folded h self labelled surrounding =
     self \<lparr> normalizing_dict_interim :=
              update_normalizing_values (welford h) (normalizing_dict_interim self) labelled,
            surrounding_normalizing_dict_interim :=
              update_normalizing_values (welford h) (surrounding_normalizing_dict_interim self)
                (Some surrounding) \<rparr>"

section \<open>Example inputs\<close>

text \<open>The label column \<^verbatim>\<open>["maize", "tea", "maize"]\<close>.\<close>

definition example_labels :: "label list" where
  "example_labels =
     [\<lparr>lat = 0, lon = 0, crop_type = Some ''maize''\<rparr>,
      \<lparr>lat = 1, lon = 1, crop_type = Some ''tea''\<rparr>,
      \<lparr>lat = 2, lon = 2, crop_type = Some ''maize''\<rparr>]"

text \<open>A fresh accumulator whose mean and variance part is trivial.\<close>

definition acc0 :: "unit accumulator" where
  "acc0 = \<lparr>n_samples = 0, stats = ()\<rparr>"

text \<open>
  An instance of the collaborators: the surrounding pixels are those of the cell at
  the given indices, each index derivation appends a channel, the mean and variance
  part is trivial, and the autoencoder sampling returns as many fill values as
  instances were asked for.
\<close>

definition example_helpers :: "unit helpers" where
  "example_helpers =
     \<lparr> get_surrounding_pixels =
         (\<lambda>da lat_idx lon_idx. sel da (x_coord da ! lon_idx) (y_coord da ! lat_idx)),
       calculate_ndvi = (\<lambda>array. array @ [Flt 0]),
       calculate_ndwi = (\<lambda>array. array @ [Flt 0]),
       welford = (\<lambda>n s array. ()),
       process_autoencoder =
         (\<lambda>self da normal_array add_ndvi add_ndwi nan_fill is_test calculate_normalizing_dict
             instances. (Some (replicate (nat instances) nan_fill), self)) \<rparr>"

text \<open>
  A tile of two by two cells spanning the box from (0, 0) to (1, 1), without NaN, and
  one with a NaN entry in every cell.
\<close>

definition example_tile :: dataarray where
  "example_tile = \<lparr> x_coord = [0, 1], y_coord = [0, 1], sel = (\<lambda>x y. [Flt 1, Flt 2]) \<rparr>"

definition nan_tile :: dataarray where
  "nan_tile = \<lparr> x_coord = [0, 1], y_coord = [0, 1], sel = (\<lambda>x y. [NaN, Flt 2]) \<rparr>"

text \<open>A label table whose first row inside the example tile has no crop type.\<close>

definition null_first_labels :: "label list" where
  "null_first_labels =
     [\<lparr>lat = 0, lon = 0, crop_type = None\<rparr>,
      \<lparr>lat = 1, lon = 1, crop_type = Some ''tea''\<rparr>]"

text \<open>
  A label table with one row inside the example tile, preceded by a row of another
  crop type outside of it.
\<close>

definition tea_then_maize_labels :: "label list" where
  "tea_then_maize_labels =
     [\<lparr>lat = 5, lon = 5, crop_type = Some ''tea''\<rparr>,
      \<lparr>lat = 0, lon = 0, crop_type = Some ''maize''\<rparr>]"

section \<open>The class index\<close>

lemma set_unique: "set (unique vs) = set vs"
  by (induction vs rule: unique.induct) auto

lemma distinct_unique: "distinct (unique vs)"
  by (induction vs rule: unique.induct) (auto simp: set_unique)

lemma takeWhile_filter_commute:
  "(\<And>v. \<not> Q v \<Longrightarrow> P v) \<Longrightarrow> takeWhile Q (filter P vs) = filter P (takeWhile Q vs)"
  by (induction vs) auto

lemma takeWhile_unique:
  "set (takeWhile (\<lambda>u. u \<noteq> b) (unique vs)) = set (takeWhile (\<lambda>u. u \<noteq> b) vs)"
proof (induction vs rule: unique.induct)
  case 1
  show ?case by simp
next
  case (2 v vs)
  show ?case
  proof (cases "v = b")
    case True
    then show ?thesis by simp
  next
    case False
    have "takeWhile (\<lambda>u. u \<noteq> b) (filter (\<lambda>u. u \<noteq> v) vs)
            = filter (\<lambda>u. u \<noteq> v) (takeWhile (\<lambda>u. u \<noteq> b) vs)"
      using False by (intro takeWhile_filter_commute) auto
    with 2 False show ?thesis by auto
  qed
qed

lemma fold_enumerate_from:
  "distinct vs \<Longrightarrow>
   fold (\<lambda>(idx, crop) d. d(crop \<mapsto> idx)) (enumerate_from k vs) m c =
     (if c \<in> set vs then Some (k + int (length (takeWhile (\<lambda>u. u \<noteq> c) vs))) else m c)"
  by (induction vs arbitrary: k m) auto

lemma dict_enumerate:
  "distinct vs \<Longrightarrow>
   dict_comprehension (enumerate_from 0 vs) c =
     (if c \<in> set vs then Some (int (length (takeWhile (\<lambda>u. u \<noteq> c) vs))) else None)"
  by (simp add: dict_comprehension_def fold_enumerate_from)

lemma set_non_null: "set (non_null vs) = {c. Some c \<in> set vs}"
  by (force simp: non_null_def image_iff)

lemma distinct_non_null: "distinct vs \<Longrightarrow> distinct (non_null vs)"
  unfolding non_null_def by (induction vs) (auto)

lemma takeWhile_non_null:
  "takeWhile (\<lambda>u. u \<noteq> c) (non_null vs) = non_null (takeWhile (\<lambda>u. u \<noteq> Some c) vs)"
  unfolding non_null_def by (induction vs) auto

lemma classes_to_index_init:
  "classes_to_index (init labs a b) =
     dict_comprehension (enumerate_from 0 (non_null (unique (map crop_type labs))))"
  by (simp add: init_def non_null_def)

lemma distinct_classes: "distinct (non_null (unique vs))"
  by (simp add: distinct_non_null distinct_unique)

lemma set_classes: "set (non_null (unique vs)) = {c. Some c \<in> set vs}"
  by (simp add: set_non_null set_unique)

lemma index_in_classes:
  "length (takeWhile (\<lambda>u. u \<noteq> c) (non_null (unique vs)))
     = card {d. Some d \<in> set (takeWhile (\<lambda>u. u \<noteq> Some c) vs)}"
proof -
  have "distinct (takeWhile (\<lambda>u. u \<noteq> c) (non_null (unique vs)))"
    by (simp add: distinct_classes)
  then have "length (takeWhile (\<lambda>u. u \<noteq> c) (non_null (unique vs)))
      = card (set (takeWhile (\<lambda>u. u \<noteq> c) (non_null (unique vs))))"
    by (simp add: distinct_card)
  also have "set (takeWhile (\<lambda>u. u \<noteq> c) (non_null (unique vs)))
      = {d. Some d \<in> set (takeWhile (\<lambda>u. u \<noteq> Some c) vs)}"
    by (simp add: takeWhile_non_null set_non_null takeWhile_unique)
  finally show ?thesis .
qed

lemma classes_to_index_lookup:
  "classes_to_index (init labs a b) c =
     (if Some c \<in> set (map crop_type labs)
      then Some (int (card {d. Some d \<in> set (takeWhile (\<lambda>u. u \<noteq> Some c) (map crop_type labs))}))
      else None)"
  unfolding classes_to_index_init
  by (simp only: dict_enumerate [OF distinct_classes] set_classes index_in_classes mem_Collect_eq)

lemma classes_to_index_nth:
  assumes "i < length (non_null (unique (map crop_type labs)))"
  shows "classes_to_index (init labs a b) (non_null (unique (map crop_type labs)) ! i) = Some (int i)"
proof -
  let ?U = "non_null (unique (map crop_type labs))"
  have d: "distinct ?U" by (rule distinct_classes)
  have "takeWhile (\<lambda>u. u \<noteq> ?U ! i) ?U = take i ?U"
    using assms d by (intro takeWhile_eq_take_P_nth) (auto simp: nth_eq_iff_index_eq)
  then have "length (takeWhile (\<lambda>u. u \<noteq> ?U ! i) ?U) = i"
    using assms by simp
  then show ?thesis
    unfolding classes_to_index_init using assms by (simp add: dict_enumerate [OF d])
qed

lemma first_seen_less: "v \<in> set col \<Longrightarrow> first_seen col v < length col"
  unfolding first_seen_def by (induction col) auto

lemma first_seen_card_less:
  fixes col :: "'a option list"
  assumes c: "Some c \<in> set col" and lt: "first_seen col (Some c) < first_seen col (Some d)"
  shows "card {e. Some e \<in> set (takeWhile (\<lambda>u. u \<noteq> Some c) col)}
           < card {e. Some e \<in> set (takeWhile (\<lambda>u. u \<noteq> Some d) col)}"
proof -
  let ?A = "\<lambda>v. {e. Some e \<in> set (takeWhile (\<lambda>u. u \<noteq> Some v) col)}"
  have tw: "takeWhile (\<lambda>u. u \<noteq> v) col = take (first_seen col v) col" for v
    unfolding first_seen_def by (rule takeWhile_eq_take)
  have fin: "finite (?A d)"
  proof -
    have "finite (Some -` set (takeWhile (\<lambda>u. u \<noteq> Some d) col))"
      by (intro finite_vimageI) auto
    then show ?thesis by (simp add: vimage_def)
  qed
  have sub: "?A c \<subseteq> ?A d"
    using lt set_take_subset_set_take [of "first_seen col (Some c)" "first_seen col (Some d)" col]
    by (auto simp: tw)
  have len: "first_seen col (Some c) < length col"
    using c by (rule first_seen_less)
  have at: "col ! first_seen col (Some c) = Some c"
    using nth_length_takeWhile [of "\<lambda>u. u \<noteq> Some c" col] len by (simp add: first_seen_def)
  have "first_seen col (Some d) \<le> length col"
    by (simp add: first_seen_def length_takeWhile_le)
  then have "Some c \<in> set (take (first_seen col (Some d)) col)"
    using lt at len by (auto simp: in_set_conv_nth intro!: exI [of _ "first_seen col (Some c)"])
  then have ind: "c \<in> ?A d" by (simp add: tw)
  have "c \<notin> ?A c" by (auto dest: set_takeWhileD)
  with sub ind have "?A c \<subset> ?A d" by blast
  with fin show ?thesis by (rule psubset_card_mono)
qed

lemma classes_to_index_range:
  "(\<exists>c. classes_to_index (init labs a b) c = Some i)
     \<longleftrightarrow> 0 \<le> i \<and> i < int (card {c. Some c \<in> set (map crop_type labs)})"
proof -
  let ?U = "non_null (unique (map crop_type labs))"
  have d: "distinct ?U" by (rule distinct_classes)
  have len: "length ?U = card {c. Some c \<in> set (map crop_type labs)}"
    using distinct_card [OF d] by (simp only: set_classes)
  show ?thesis
  proof
    assume "\<exists>c. classes_to_index (init labs a b) c = Some i"
    then obtain c where c: "classes_to_index (init labs a b) c = Some i" ..
    then have "c \<in> set ?U" and "i = int (first_seen ?U c)"
      unfolding classes_to_index_init first_seen_def
      by (auto simp: dict_enumerate [OF d] split: if_splits)
    then show "0 \<le> i \<and> i < int (card {c. Some c \<in> set (map crop_type labs)})"
      using first_seen_less [of c ?U] len by simp
  next
    assume "0 \<le> i \<and> i < int (card {c. Some c \<in> set (map crop_type labs)})"
    then have "nat i < length ?U" and "int (nat i) = i" using len by auto
    then show "\<exists>c. classes_to_index (init labs a b) c = Some i"
      using classes_to_index_nth [of "nat i" labs a b] by auto
  qed
qed

lemma classes_to_index_order:
  assumes c: "classes_to_index (init labs a b) c = Some i"
    and d: "classes_to_index (init labs a b) d = Some j"
  shows "i < j \<longleftrightarrow>
    first_seen (map crop_type labs) (Some c) < first_seen (map crop_type labs) (Some d)"
proof -
  let ?col = "map crop_type labs"
  let ?A = "\<lambda>v. {e. Some e \<in> set (takeWhile (\<lambda>u. u \<noteq> Some v) ?col)}"
  from c have cin: "Some c \<in> set ?col" and i: "i = int (card (?A c))"
    by (auto simp: classes_to_index_lookup split: if_splits)
  from d have din: "Some d \<in> set ?col" and j: "j = int (card (?A d))"
    by (auto simp: classes_to_index_lookup split: if_splits)
  show ?thesis
  proof
    assume "i < j"
    show "first_seen ?col (Some c) < first_seen ?col (Some d)"
    proof (rule ccontr)
      assume "\<not> first_seen ?col (Some c) < first_seen ?col (Some d)"
      then have le: "first_seen ?col (Some d) \<le> first_seen ?col (Some c)" by simp
      have "c \<noteq> d" using \<open>i < j\<close> i j by auto
      have "?col ! first_seen ?col (Some c) = Some c"
        using nth_length_takeWhile [of "\<lambda>u. u \<noteq> Some c" ?col] first_seen_less [OF cin]
        by (simp add: first_seen_def)
      moreover have "?col ! first_seen ?col (Some d) = Some d"
        using nth_length_takeWhile [of "\<lambda>u. u \<noteq> Some d" ?col] first_seen_less [OF din]
        by (simp add: first_seen_def)
      ultimately have "first_seen ?col (Some d) \<noteq> first_seen ?col (Some c)"
        using \<open>c \<noteq> d\<close> by auto
      with le have "first_seen ?col (Some d) < first_seen ?col (Some c)" by simp
      from first_seen_card_less [OF din this] have "j < i" using i j by simp
      with \<open>i < j\<close> show False by simp
    qed
  next
    assume "first_seen ?col (Some c) < first_seen ?col (Some d)"
    from first_seen_card_less [OF cin this] show "i < j" using i j by simp
  qed
qed

lemma classes_to_index_inj:
  assumes c: "classes_to_index (init labs a b) c = Some i"
    and d: "classes_to_index (init labs a b) d = Some i"
  shows "c = d"
proof -
  let ?U = "non_null (unique (map crop_type labs))"
  have dist: "distinct ?U" by (rule distinct_classes)
  from c have cU: "c \<in> set ?U" and ci: "i = int (first_seen ?U c)"
    unfolding classes_to_index_init first_seen_def
    by (auto simp: dict_enumerate [OF dist] split: if_splits)
  from d have dU: "d \<in> set ?U" and di: "i = int (first_seen ?U d)"
    unfolding classes_to_index_init first_seen_def
    by (auto simp: dict_enumerate [OF dist] split: if_splits)
  have eq: "first_seen ?U c = first_seen ?U d" using ci di by simp
  have "c = ?U ! first_seen ?U c"
    using nth_length_takeWhile [of "\<lambda>u. u \<noteq> c" ?U] first_seen_less [OF cU]
    by (simp add: first_seen_def)
  also have "\<dots> = ?U ! first_seen ?U d" by (simp only: eq)
  also have "\<dots> = d"
    using nth_length_takeWhile [of "\<lambda>u. u \<noteq> d" ?U] first_seen_less [OF dU]
    by (simp add: first_seen_def)
  finally show ?thesis .
qed

text \<open>
  Claim C4.  The class index built by \<^verbatim>\<open>__init__\<close> has as keys exactly the
  distinct non-null crop types of the label table; its ids are exactly the integers
  from 0 up to their number (excluded), each id for one crop type; the ids follow the
  order of first appearance in the table; and the labels
  \<^verbatim>\<open>["maize", "tea", "maize"]\<close> yield \<^verbatim>\<open>{"maize": 0, "tea": 1}\<close>.
\<close>

theorem class_index_first_seen:
  "dom (classes_to_index (init labs a b)) = {c. Some c \<in> set (map crop_type labs)}
   \<and> (\<forall>i. (\<exists>c. classes_to_index (init labs a b) c = Some i)
          \<longleftrightarrow> 0 \<le> i \<and> i < int (card {c. Some c \<in> set (map crop_type labs)}))
   \<and> (\<forall>c d i. classes_to_index (init labs a b) c = Some i
          \<and> classes_to_index (init labs a b) d = Some i \<longrightarrow> c = d)
   \<and> (\<forall>c d i j. classes_to_index (init labs a b) c = Some i
          \<and> classes_to_index (init labs a b) d = Some j
          \<longrightarrow> (i < j \<longleftrightarrow> first_seen (map crop_type labs) (Some c)
                             < first_seen (map crop_type labs) (Some d)))
   \<and> classes_to_index (init example_labels a b) = [''maize'' \<mapsto> 0, ''tea'' \<mapsto> 1]"
proof (intro conjI allI impI)
  show "dom (classes_to_index (init labs a b)) = {c. Some c \<in> set (map crop_type labs)}"
    by (auto simp: dom_def classes_to_index_lookup)
  show "(\<exists>c. classes_to_index (init labs a b) c = Some i)
     \<longleftrightarrow> 0 \<le> i \<and> i < int (card {c. Some c \<in> set (map crop_type labs)})" for i
    by (rule classes_to_index_range)
  show "c = d" if "classes_to_index (init labs a b) c = Some i
          \<and> classes_to_index (init labs a b) d = Some i" for c d i
    using that classes_to_index_inj by blast
  show "i < j \<longleftrightarrow> first_seen (map crop_type labs) (Some c)
                             < first_seen (map crop_type labs) (Some d)"
    if "classes_to_index (init labs a b) c = Some i
          \<and> classes_to_index (init labs a b) d = Some j" for c d i j
    using that classes_to_index_order by blast
  show "classes_to_index (init example_labels a b) = [''maize'' \<mapsto> 0, ''tea'' \<mapsto> 1]"
    by (simp add: init_def example_labels_def dict_comprehension_def)
qed

theorem class_index_first_seen_witness:
  "classes_to_index (init example_labels acc0 acc0) ''maize'' = Some 0
   \<and> classes_to_index (init example_labels acc0 acc0) ''tea'' = Some 1
   \<and> ((0::int) < 1 \<longleftrightarrow> first_seen (map crop_type example_labels) (Some ''maize'')
                             < first_seen (map crop_type example_labels) (Some ''tea''))
   \<and> first_seen (map crop_type example_labels) (Some ''maize'') = 0
   \<and> first_seen (map crop_type example_labels) (Some ''tea'') = 1"
proof -
  have m: "classes_to_index (init example_labels acc0 acc0) ''maize'' = Some 0"
    and t: "classes_to_index (init example_labels acc0 acc0) ''tea'' = Some 1"
    by (simp_all add: init_def example_labels_def dict_comprehension_def)
  from class_index_first_seen [of example_labels acc0 acc0] m t
  have "(0::int) < 1 \<longleftrightarrow> first_seen (map crop_type example_labels) (Some ''maize'')
                             < first_seen (map crop_type example_labels) (Some ''tea'')"
    by blast
  with m t show ?thesis by (simp add: first_seen_def example_labels_def)
qed

section \<open>The nearest cell and the NaN gate\<close>

lemma find_nearest_None: "find_nearest array target = None \<longleftrightarrow> array = []"
  by (cases array) (auto split: option.splits)

lemma find_nearest_Some:
  "find_nearest array target = Some (v, i) \<Longrightarrow>
     i < length array \<and> v = array ! i
     \<and> (\<forall>j<length array. \<bar>array ! i - target\<bar> \<le> \<bar>array ! j - target\<bar>)
     \<and> (\<forall>j<i. \<bar>array ! i - target\<bar> < \<bar>array ! j - target\<bar>)"
proof (induction array arbitrary: v i)
  case Nil
  then show ?case by simp
next
  case (Cons a as)
  show ?case
  proof (cases "find_nearest as target")
    case None
    then have "as = []" by (simp add: find_nearest_None)
    with Cons.prems show ?thesis by simp
  next
    case (Some r)
    obtain b idx where r: "r = (b, idx)" by (cases r)
    note IH = Cons.IH [OF Some [unfolded r]]
    show ?thesis
    proof (cases "\<bar>a - target\<bar> \<le> \<bar>b - target\<bar>")
      case True
      with Cons.prems Some r have vi: "v = a" "i = 0" by auto
      have "\<bar>a - target\<bar> \<le> \<bar>(a # as) ! j - target\<bar>" if "j < length (a # as)" for j
      proof (cases j)
        case 0
        then show ?thesis by simp
      next
        case (Suc k)
        with that IH True show ?thesis by force
      qed
      with vi show ?thesis by simp
    next
      case False
      with Cons.prems Some r have vi: "v = b" "i = Suc idx" by auto
      have m: "\<bar>b - target\<bar> \<le> \<bar>(a # as) ! j - target\<bar>" if "j < length (a # as)" for j
      proof (cases j)
        case 0
        with False show ?thesis by simp
      next
        case (Suc k)
        with that IH show ?thesis by force
      qed
      have f: "\<bar>b - target\<bar> < \<bar>(a # as) ! j - target\<bar>" if "j < Suc idx" for j
      proof (cases j)
        case 0
        with False show ?thesis by simp
      next
        case (Suc k)
        with that IH show ?thesis by force
      qed
      from vi IH m f show ?thesis by simp
    qed
  qed
qed

text \<open>
  Claim C5.  For every non-empty coordinate vector and target, \<^const>\<open>find_nearest\<close>
  returns an entry of the vector together with its index; no entry is closer to the
  target, and every entry before the returned index is strictly farther, so that ties
  go to the first occurrence.  For the vector \<^verbatim>\<open>[10.0, 10.5, 11.0]\<close> and the
  target \<^verbatim>\<open>10.3\<close> it returns \<^verbatim>\<open>(10.5, 1)\<close>.
\<close>

theorem find_nearest_closest:
  "(array \<noteq> [] \<longrightarrow>
      (\<exists>i. find_nearest array target = Some (array ! i, i) \<and> i < length array
         \<and> (\<forall>j<length array. \<bar>array ! i - target\<bar> \<le> \<bar>array ! j - target\<bar>)
         \<and> (\<forall>j<i. \<bar>array ! i - target\<bar> < \<bar>array ! j - target\<bar>)))
   \<and> find_nearest [10, 21 / 2, 11] (103 / 10) = Some (21 / 2, 1)"
proof (intro conjI impI)
  assume "array \<noteq> []"
  then obtain v i where s: "find_nearest array target = Some (v, i)"
    using find_nearest_None [of array target] by (cases "find_nearest array target") auto
  from find_nearest_Some [OF s] s
  show "\<exists>i. find_nearest array target = Some (array ! i, i) \<and> i < length array
         \<and> (\<forall>j<length array. \<bar>array ! i - target\<bar> \<le> \<bar>array ! j - target\<bar>)
         \<and> (\<forall>j<i. \<bar>array ! i - target\<bar> < \<bar>array ! j - target\<bar>)"
    by blast
next
  show "find_nearest [10, 21 / 2, 11] (103 / 10) = Some (21 / 2, 1)"
    by simp
qed

theorem find_nearest_closest_witness:
  "find_nearest [1, 3, 3, 0] 2 = Some (1, 0)"
proof -
  have ne: "[1, 3, 3, 0 :: real] \<noteq> []" by simp
  from find_nearest_closest [of "[1, 3, 3, 0]" 2] ne
  obtain i where i: "find_nearest [1, 3, 3, 0] 2 = Some ([1, 3, 3, 0] ! i, i)"
    by blast
  moreover have "find_nearest [1, 3, 3, 0] 2 = Some (1, 0)" by simp
  ultimately show ?thesis by simp
qed

lemma nan_ratio_card:
  "nan_ratio array = real (card {i. i < length array \<and> array ! i = NaN}) / real (length array)"
  by (simp add: nan_ratio_def length_filter_conv_card)

lemma nan_to_num_nth:
  "i < length array \<Longrightarrow> nan_to_num array nan ! i = (if array ! i = NaN then nan else array ! i)"
  by (simp add: nan_to_num_def)

text \<open>
  Claim C3.  \<^const>\<open>maxed_nan_to_num\<close> rejects the array exactly when a ratio is
  given and the fraction of NaN entries exceeds it; otherwise the result has the
  length of the array, each NaN entry replaced by the fill value and every other
  entry kept.  On \<^verbatim>\<open>[1, NaN, 3]\<close> with fill value 0 it rejects for the ratio
  0.3 and returns \<^verbatim>\<open>[1, 0, 3]\<close> for the ratio 0.5.
\<close>

theorem maxed_nan_to_num_gate:
  "maxed_nan_to_num array nan max_ratio =
     (if (\<exists>r. max_ratio = Some r
              \<and> real (card {i. i < length array \<and> array ! i = NaN}) / real (length array) > r)
      then None else Some (nan_to_num array nan))
   \<and> length (nan_to_num array nan) = length array
   \<and> (\<forall>i<length array. nan_to_num array nan ! i = (if array ! i = NaN then nan else array ! i))
   \<and> maxed_nan_to_num [Flt 1, NaN, Flt 3] (Flt 0) (Some (3 / 10)) = None
   \<and> maxed_nan_to_num [Flt 1, NaN, Flt 3] (Flt 0) (Some (1 / 2)) = Some [Flt 1, Flt 0, Flt 3]"
proof (intro conjI allI impI)
  show "maxed_nan_to_num array nan max_ratio =
     (if (\<exists>r. max_ratio = Some r
              \<and> real (card {i. i < length array \<and> array ! i = NaN}) / real (length array) > r)
      then None else Some (nan_to_num array nan))"
    by (cases max_ratio) (simp_all add: maxed_nan_to_num_def nan_ratio_card)
  show "length (nan_to_num array nan) = length array"
    by (simp add: nan_to_num_def)
  show "nan_to_num array nan ! i = (if array ! i = NaN then nan else array ! i)"
    if "i < length array" for i
    using that by (rule nan_to_num_nth)
  show "maxed_nan_to_num [Flt 1, NaN, Flt 3] (Flt 0) (Some (3 / 10)) = None"
    by (simp add: maxed_nan_to_num_def nan_ratio_def)
  show "maxed_nan_to_num [Flt 1, NaN, Flt 3] (Flt 0) (Some (1 / 2)) = Some [Flt 1, Flt 0, Flt 3]"
    by (simp add: maxed_nan_to_num_def nan_ratio_def nan_to_num_def)
qed

theorem maxed_nan_to_num_gate_witness:
  "(1::nat) < length [NaN, NaN, Flt 2]
   \<and> nan_to_num [NaN, NaN, Flt 2] (Flt 7) ! 1 = Flt 7
   \<and> maxed_nan_to_num [NaN, NaN, Flt 2] (Flt 7) (Some (2 / 3)) = Some [Flt 7, Flt 7, Flt 2]
   \<and> maxed_nan_to_num [NaN, NaN, Flt 2] (Flt 7) (Some (3 / 5)) = None"
proof -
  have l: "(1::nat) < length [NaN, NaN, Flt 2]" by simp
  from maxed_nan_to_num_gate [of "[NaN, NaN, Flt 2]" "Flt 7" "Some (2 / 3)"] l
  have "nan_to_num [NaN, NaN, Flt 2] (Flt 7) ! 1 = (if [NaN, NaN, Flt 2] ! 1 = NaN then Flt 7 else [NaN, NaN, Flt 2] ! 1)"
    by blast
  then show ?thesis
    by (simp add: maxed_nan_to_num_def nan_ratio_def nan_to_num_def)
qed

section \<open>The labelled part of \<^verbatim>\<open>process_single_file\<close>\<close>

lemma amin_Min: "vs \<noteq> [] \<Longrightarrow> amin vs = Inr (Min (set vs))"
proof (cases vs)
  case (Cons v ws)
  then show ?thesis using Min.set_eq_fold [of v ws] by (simp add: amin_def)
qed simp

lemma amax_Max: "vs \<noteq> [] \<Longrightarrow> amax vs = Inr (Max (set vs))"
proof (cases vs)
  case (Cons v ws)
  then show ?thesis using Max.set_eq_fold [of v ws] by (simp add: amax_def)
qed simp

lemma find_nearest_nearest:
  "vs \<noteq> [] \<Longrightarrow> find_nearest vs target = Some (fst (nearest vs target), snd (nearest vs target))"
  using find_nearest_None [of vs target]
  by (cases "find_nearest vs target") (auto simp: nearest_def)

lemma overlap_filter:
  "filter (\<lambda>l. lon l \<le> Max (set (x_coord da)) \<and> lon l \<ge> Min (set (x_coord da))
               \<and> lat l \<le> Max (set (y_coord da)) \<and> lat l \<ge> Min (set (y_coord da))) labs
     = overlapping da labs"
  unfolding overlapping_def inside_bounding_box_def
  by (rule filter_cong) auto

lemma labelled_instance_eq:
  assumes x: "x_coord da \<noteq> []" and y: "y_coord da \<noteq> []"
  shows "labelled_instance h self da nan_fill max_nan_ratio add_ndvi add_ndwi
           calculate_normalizing_dict is_test =
    (case overlapping da (labels self) of
       [] \<Rightarrow> Inr (self, None, None)
     | l # rest \<Rightarrow>
        (case crop_type l of
           None \<Rightarrow> Inr (self, None, None)
         | Some crop \<Rightarrow>
            (case classes_to_index self crop of
               None \<Rightarrow> Inl KeyError
             | Some ci \<Rightarrow>
                Inr (if \<not> is_test \<and> calculate_normalizing_dict
                     then folded h self
                            (maxed_nan_to_num (labelled_series h da l add_ndvi add_ndwi) nan_fill
                               (Some max_nan_ratio))
                            (nan_to_num (surrounding_series h da l add_ndvi add_ndwi) nan_fill)
                     else self,
                     (case maxed_nan_to_num (labelled_series h da l add_ndvi add_ndwi) nan_fill
                             (Some max_nan_ratio) of
                        None \<Rightarrow> None
                      | Some la \<Rightarrow>
                          Some \<lparr> label_lat = lat l, label_lon = lon l,
                                 instance_lat = fst (nearest (y_coord da) (lat l)),
                                 instance_lon = fst (nearest (x_coord da) (lon l)),
                                 labelled_array = la,
                                 surrounding_array =
                                   Some (nan_to_num (surrounding_series h da l add_ndvi add_ndwi)
                                           nan_fill),
                                 crop_label = crop, crop_int = ci \<rparr>),
                     maxed_nan_to_num (labelled_series h da l add_ndvi add_ndwi) nan_fill
                       (Some max_nan_ratio)))))"
proof -
  have s: "maxed_nan_to_num a n None = Some (nan_to_num a n)" for a n
    by (simp add: maxed_nan_to_num_def)
  note bounds = amin_Min [OF x] amin_Min [OF y] amax_Max [OF x] amax_Max [OF y]
  show ?thesis
  proof (cases "overlapping da (labels self)")
    case Nil
    then show ?thesis
      by (simp add: labelled_instance_def bounds bind_def overlap_filter)
  next
    case (Cons l rest)
    show ?thesis
    proof (cases "crop_type l")
      case None
      with Cons show ?thesis
        by (simp add: labelled_instance_def bounds bind_def overlap_filter)
    next
      case (Some crop)
      show ?thesis
      proof (cases "classes_to_index self crop")
        case None
        with Cons Some show ?thesis
          by (simp add: labelled_instance_def bounds bind_def overlap_filter)
      next
        case ci: (Some ci)
        show ?thesis
          by (cases add_ndvi; cases add_ndwi;
              simp add: labelled_instance_def bounds bind_def overlap_filter
                Cons Some ci Let_def s find_nearest_nearest [OF x]
                find_nearest_nearest [OF y] labelled_series_def surrounding_series_def
                derive_indices_def folded_def case_prod_beta cong: option.case_cong)
      qed
    qed
  qed
qed

section \<open>The class index look-up\<close>

lemmas eval_defs =
  process_single_file_def labelled_instance_def bind_def amin_def amax_def init_def
  dict_comprehension_def maxed_nan_to_num_def nan_ratio_def nan_to_num_def
  update_normalizing_values_def Let_def example_helpers_def example_tile_def nan_tile_def
  example_labels_def null_first_labels_def tea_then_maize_labels_def acc0_def
  overlapping_def inside_bounding_box_def

lemma labels_init [simp]: "labels (init labs a b) = labs"
  by (simp add: init_def Let_def)

lemma overlapping_in_table: "overlapping da labs = l # rest \<Longrightarrow> l \<in> set labs"
  unfolding overlapping_def by (metis filter_is_subset list.set_intros(1) subsetD)

lemma key_present:
  assumes "l \<in> set labs" and "crop_type l = Some crop"
  shows "\<exists>ci. classes_to_index (init labs a b) crop = Some ci"
proof -
  from assms have "Some crop \<in> set (map crop_type labs)" by force
  then show ?thesis by (simp only: classes_to_index_lookup if_True) blast
qed

lemma labelled_instance_no_KeyError:
  "labelled_instance h (init labs a b) da nan_fill max_nan_ratio add_ndvi add_ndwi
     calculate_normalizing_dict is_test \<noteq> Inl KeyError"
proof (cases "x_coord da = [] \<or> y_coord da = []")
  case True
  then show ?thesis
    by (auto simp: labelled_instance_def amin_def amax_def bind_def split: list.splits)
next
  case False
  then have x: "x_coord da \<noteq> []" and y: "y_coord da \<noteq> []" by simp_all
  show ?thesis
  proof (cases "overlapping da labs")
    case Nil
    then show ?thesis by (simp add: labelled_instance_eq [OF x y])
  next
    case (Cons l rest)
    show ?thesis
    proof (cases "crop_type l")
      case None
      with Cons show ?thesis by (simp add: labelled_instance_eq [OF x y])
    next
      case (Some crop)
      from key_present [OF overlapping_in_table [OF Cons] Some]
      obtain ci where "classes_to_index (init labs a b) crop = Some ci" by blast
      with Cons Some show ?thesis by (simp add: labelled_instance_eq [OF x y])
    qed
  qed
qed

text \<open>
  Claim C10.  For every label table, the crop type of the first overlapping row, when
  it is not null, is a key of the class index that \<^verbatim>\<open>__init__\<close> built from the
  same table, and \<^verbatim>\<open>process_single_file\<close> never fails with a missing key.
\<close>

theorem class_lookup_total:
  "(\<forall>rest l crop. overlapping da labs = l # rest \<and> crop_type l = Some crop
        \<longrightarrow> crop \<in> dom (classes_to_index (init labs a b)))
   \<and> process_single_file h (init labs a b) da nan_fill max_nan_ratio add_ndvi add_ndwi
         calculate_normalizing_dict is_test return_autoencoder_instances
         autoencoder_instances_per_label \<noteq> Inl KeyError"
proof (intro conjI allI impI)
  fix rest l crop
  assume "overlapping da labs = l # rest \<and> crop_type l = Some crop"
  then show "crop \<in> dom (classes_to_index (init labs a b))"
    using key_present [of l labs crop a b] overlapping_in_table [of da labs l rest] by auto
next
  show "process_single_file h (init labs a b) da nan_fill max_nan_ratio add_ndvi add_ndwi
         calculate_normalizing_dict is_test return_autoencoder_instances
         autoencoder_instances_per_label \<noteq> Inl KeyError"
    using labelled_instance_no_KeyError [of h labs a b da nan_fill max_nan_ratio add_ndvi add_ndwi
      calculate_normalizing_dict is_test]
    by (auto simp: process_single_file_def bind_def split: sum.splits prod.splits)
qed

theorem class_lookup_total_witness:
  "overlapping example_tile example_labels
      = \<lparr>lat = 0, lon = 0, crop_type = Some ''maize''\<rparr>
          # [\<lparr>lat = 1, lon = 1, crop_type = Some ''tea''\<rparr>]
   \<and> ''maize'' \<in> dom (classes_to_index (init example_labels acc0 acc0))"
proof -
  have o: "overlapping example_tile example_labels
      = \<lparr>lat = 0, lon = 0, crop_type = Some ''maize''\<rparr>
          # [\<lparr>lat = 1, lon = 1, crop_type = Some ''tea''\<rparr>]"
    by (simp add: eval_defs)
  have c: "crop_type \<lparr>lat = 0, lon = 0, crop_type = Some ''maize''\<rparr> = Some ''maize''"
    by simp
  from class_lookup_total [of example_tile example_labels acc0 acc0] o c
  have "''maize'' \<in> dom (classes_to_index (init example_labels acc0 acc0))"
    by blast
  with o show ?thesis by simp
qed

section \<open>When a labelled instance is produced\<close>

lemma process_single_file_Inr:
  assumes "labelled_instance h self da nan_fill max_nan_ratio add_ndvi add_ndwi
             calculate_normalizing_dict is_test = Inr (s1, di, la)"
  shows "process_single_file h self da nan_fill max_nan_ratio add_ndvi add_ndwi
           calculate_normalizing_dict is_test return_autoencoder_instances n =
         (if return_autoencoder_instances
          then Inr ((di, fst (process_autoencoder h s1 da la add_ndvi add_ndwi nan_fill is_test
                                 calculate_normalizing_dict n)),
                    snd (process_autoencoder h s1 da la add_ndvi add_ndwi nan_fill is_test
                           calculate_normalizing_dict n))
          else Inr ((di, None), s1))"
  using assms by (simp add: process_single_file_def bind_def case_prod_beta)

text \<open>
  The outcome of the labelled part for an engineer built by \<^const>\<open>init\<close>: the
  engineer, the instance and the labelled array.
\<close>

lemma labelled_instance_init_none:
  assumes x: "x_coord da \<noteq> []" and y: "y_coord da \<noteq> []"
    and o: "overlapping da labs = [] \<or> crop_type (hd (overlapping da labs)) = None"
  shows "labelled_instance h (init labs a b) da nan_fill max_nan_ratio add_ndvi add_ndwi
           calculate_normalizing_dict is_test = Inr (init labs a b, None, None)"
  using o by (cases "overlapping da labs") (auto simp: labelled_instance_eq [OF x y])

lemma labelled_instance_init_some:
  assumes x: "x_coord da \<noteq> []" and y: "y_coord da \<noteq> []"
    and o: "overlapping da labs = l # rest" and c: "crop_type l = Some crop"
  shows "\<exists>ci. classes_to_index (init labs a b) crop = Some ci \<and>
    labelled_instance h (init labs a b) da nan_fill max_nan_ratio add_ndvi add_ndwi
           calculate_normalizing_dict is_test =
      Inr (if \<not> is_test \<and> calculate_normalizing_dict
           then folded h (init labs a b)
                  (maxed_nan_to_num (labelled_series h da l add_ndvi add_ndwi) nan_fill
                     (Some max_nan_ratio))
                  (nan_to_num (surrounding_series h da l add_ndvi add_ndwi) nan_fill)
           else init labs a b,
           (case maxed_nan_to_num (labelled_series h da l add_ndvi add_ndwi) nan_fill
                   (Some max_nan_ratio) of
              None \<Rightarrow> None
            | Some la \<Rightarrow>
                Some \<lparr> label_lat = lat l, label_lon = lon l,
                       instance_lat = fst (nearest (y_coord da) (lat l)),
                       instance_lon = fst (nearest (x_coord da) (lon l)),
                       labelled_array = la,
                       surrounding_array =
                         Some (nan_to_num (surrounding_series h da l add_ndvi add_ndwi) nan_fill),
                       crop_label = crop, crop_int = ci \<rparr>),
           maxed_nan_to_num (labelled_series h da l add_ndvi add_ndwi) nan_fill
             (Some max_nan_ratio))"
proof -
  from key_present [OF overlapping_in_table [OF o] c]
  obtain ci where ci: "classes_to_index (init labs a b) crop = Some ci" by blast
  show ?thesis
    by (rule exI [of _ ci]) (simp add: labelled_instance_eq [OF x y] o c ci)
qed

lemma maxed_nan_to_num_None_iff:
  "maxed_nan_to_num array nan (Some r) = None \<longleftrightarrow> nan_ratio array > r"
  by (simp add: maxed_nan_to_num_def)

lemma labelled_instance_init_produced:
  assumes x: "x_coord da \<noteq> []" and y: "y_coord da \<noteq> []"
  shows "\<exists>s1 di la.
     labelled_instance h (init labs a b) da nan_fill max_nan_ratio add_ndvi add_ndwi
           calculate_normalizing_dict is_test = Inr (s1, di, la)
     \<and> (di \<noteq> None \<longleftrightarrow>
          overlapping da labs \<noteq> [] \<and> crop_type (hd (overlapping da labs)) \<noteq> None
          \<and> nan_ratio (labelled_series h da (hd (overlapping da labs)) add_ndvi add_ndwi)
               \<le> max_nan_ratio)"
proof (cases "overlapping da labs = [] \<or> crop_type (hd (overlapping da labs)) = None")
  case True
  from labelled_instance_init_none [OF x y True, where h = h and a = a and b = b
      and nan_fill = nan_fill and max_nan_ratio = max_nan_ratio and add_ndvi = add_ndvi
      and add_ndwi = add_ndwi and calculate_normalizing_dict = calculate_normalizing_dict
      and is_test = is_test] True
  show ?thesis by auto
next
  case False
  then obtain l rest crop where o: "overlapping da labs = l # rest"
    and c: "crop_type l = Some crop"
    by (cases "overlapping da labs") auto
  from labelled_instance_init_some [OF x y o c, where h = h and a = a and b = b
      and nan_fill = nan_fill and max_nan_ratio = max_nan_ratio and add_ndvi = add_ndvi
      and add_ndwi = add_ndwi and calculate_normalizing_dict = calculate_normalizing_dict
      and is_test = is_test]
  obtain s1 di la where
    li: "labelled_instance h (init labs a b) da nan_fill max_nan_ratio add_ndvi add_ndwi
           calculate_normalizing_dict is_test = Inr (s1, di, la)"
    and di: "di = None \<longleftrightarrow> maxed_nan_to_num (labelled_series h da l add_ndvi add_ndwi) nan_fill
                   (Some max_nan_ratio) = None"
    by (auto split: option.splits)
  from di have "di \<noteq> None \<longleftrightarrow>
      nan_ratio (labelled_series h da l add_ndvi add_ndwi) \<le> max_nan_ratio"
    by (simp add: maxed_nan_to_num_None_iff not_less)
  with li o c show ?thesis by auto
qed

text \<open>
  Claim C1, as amended.  For every label table and every tile with at least one
  column and one row, \<^verbatim>\<open>process_single_file\<close> returns, and it returns a labelled
  instance if and only if some row of the table lies inside the tile's inclusive
  bounding box, the first such row has a crop type, and the fraction of NaN entries of
  the labelled series does not exceed \<^verbatim>\<open>max_nan_ratio\<close>; otherwise the labelled
  result is \<^verbatim>\<open>None\<close>.
\<close>

theorem labelled_instance_iff:
  assumes "x_coord da \<noteq> []" and "y_coord da \<noteq> []"
  shows "\<exists>di ae self'.
     process_single_file h (init labs a b) da nan_fill max_nan_ratio add_ndvi add_ndwi
         calculate_normalizing_dict is_test return_autoencoder_instances
         autoencoder_instances_per_label = Inr ((di, ae), self')
     \<and> (di \<noteq> None \<longleftrightarrow>
          overlapping da labs \<noteq> [] \<and> crop_type (hd (overlapping da labs)) \<noteq> None
          \<and> nan_ratio (labelled_series h da (hd (overlapping da labs)) add_ndvi add_ndwi)
               \<le> max_nan_ratio)"
proof -
  from labelled_instance_init_produced [OF assms, where h = h and labs = labs and a = a and b = b
      and nan_fill = nan_fill and max_nan_ratio = max_nan_ratio and add_ndvi = add_ndvi
      and add_ndwi = add_ndwi and calculate_normalizing_dict = calculate_normalizing_dict
      and is_test = is_test]
  obtain s1 di la where
    li: "labelled_instance h (init labs a b) da nan_fill max_nan_ratio add_ndvi add_ndwi
           calculate_normalizing_dict is_test = Inr (s1, di, la)"
    and di: "di \<noteq> None \<longleftrightarrow>
          overlapping da labs \<noteq> [] \<and> crop_type (hd (overlapping da labs)) \<noteq> None
          \<and> nan_ratio (labelled_series h da (hd (overlapping da labs)) add_ndvi add_ndwi)
               \<le> max_nan_ratio"
    by blast
  show ?thesis
    using di
    by (cases return_autoencoder_instances) (simp_all add: process_single_file_Inr [OF li])
qed

theorem labelled_instance_iff_witness:
  "x_coord example_tile \<noteq> [] \<and> y_coord example_tile \<noteq> []
   \<and> overlapping example_tile example_labels \<noteq> []
   \<and> crop_type (hd (overlapping example_tile example_labels)) = Some ''maize''
   \<and> nan_ratio (labelled_series example_helpers example_tile
         (hd (overlapping example_tile example_labels)) True False) \<le> 1 / 2
   \<and> (\<exists>inst ae self'.
         process_single_file example_helpers (init example_labels acc0 acc0) example_tile
           (Flt 0) (1 / 2) True False True False True 2 = Inr ((Some inst, ae), self'))"
proof -
  have x: "x_coord example_tile \<noteq> []" and y: "y_coord example_tile \<noteq> []"
    by (simp_all add: example_tile_def)
  have o: "overlapping example_tile example_labels
      = [\<lparr>lat = 0, lon = 0, crop_type = Some ''maize''\<rparr>,
         \<lparr>lat = 1, lon = 1, crop_type = Some ''tea''\<rparr>]"
    by (simp add: eval_defs)
  have r: "nan_ratio (labelled_series example_helpers example_tile
         (hd (overlapping example_tile example_labels)) True False) \<le> 1 / 2"
    unfolding o
    by (simp add: labelled_series_def derive_indices_def nearest_def eval_defs)
  from labelled_instance_iff [OF x y, where h = example_helpers and labs = example_labels
      and a = acc0 and b = acc0 and nan_fill = "Flt 0" and max_nan_ratio = "1 / 2"
      and add_ndvi = True and add_ndwi = False and calculate_normalizing_dict = True
      and is_test = False and return_autoencoder_instances = True
      and autoencoder_instances_per_label = 2] o r
  have "\<exists>inst ae self'.
         process_single_file example_helpers (init example_labels acc0 acc0) example_tile
           (Flt 0) (1 / 2) True False True False True 2 = Inr ((Some inst, ae), self')"
    by auto
  with x y o r show ?thesis by simp
qed

text \<open>
  The claim as stated fails: the second row of this table lies inside the tile and
  has a crop type, but the first row inside the tile has none, and no labelled
  instance is produced.
\<close>

theorem later_row_not_used_counterexample:
  "inside_bounding_box example_tile (null_first_labels ! 1)
   \<and> crop_type (null_first_labels ! 1) = Some ''tea''
   \<and> process_single_file example_helpers (init null_first_labels acc0 acc0) example_tile
        (Flt 0) (1 / 2) False False False False False 0
      = Inr ((None, None), init null_first_labels acc0 acc0)"
  by (simp add: eval_defs)

section \<open>Autoencoder instances\<close>

text \<open>
  Claim C8.  For every tile with at least one column and one row the labelled part
  returns, whatever its result; with \<^verbatim>\<open>return_autoencoder_instances\<close> true the
  second component of the returned pair is what \<^verbatim>\<open>process_autoencoder\<close> returns
  on the engineer and the labelled array left by the labelled part (also when the
  labelled result is \<^verbatim>\<open>None\<close>), and with it false the second component is
  \<^verbatim>\<open>None\<close>.
\<close>

theorem autoencoder_sampling_independent:
  assumes "x_coord da \<noteq> []" and "y_coord da \<noteq> []"
  shows "(\<exists>s1 di la.
       labelled_instance h (init labs a b) da nan_fill max_nan_ratio add_ndvi add_ndwi
         calculate_normalizing_dict is_test = Inr (s1, di, la)
       \<and> process_single_file h (init labs a b) da nan_fill max_nan_ratio add_ndvi add_ndwi
           calculate_normalizing_dict is_test True n
         = Inr ((di, fst (process_autoencoder h s1 da la add_ndvi add_ndwi nan_fill is_test
                            calculate_normalizing_dict n)),
                snd (process_autoencoder h s1 da la add_ndvi add_ndwi nan_fill is_test
                       calculate_normalizing_dict n))
       \<and> process_single_file h (init labs a b) da nan_fill max_nan_ratio add_ndvi add_ndwi
           calculate_normalizing_dict is_test False n
         = Inr ((di, None), s1))
     \<and> (\<forall>self di ae self'.
           process_single_file h self da nan_fill max_nan_ratio add_ndvi add_ndwi
             calculate_normalizing_dict is_test False n = Inr ((di, ae), self')
           \<longrightarrow> ae = None)"
proof (intro conjI allI impI)
  from labelled_instance_init_produced [OF assms, where h = h and labs = labs and a = a and b = b
      and nan_fill = nan_fill and max_nan_ratio = max_nan_ratio and add_ndvi = add_ndvi
      and add_ndwi = add_ndwi and calculate_normalizing_dict = calculate_normalizing_dict
      and is_test = is_test]
  obtain s1 di la where
    li: "labelled_instance h (init labs a b) da nan_fill max_nan_ratio add_ndvi add_ndwi
           calculate_normalizing_dict is_test = Inr (s1, di, la)"
    by blast
  show "\<exists>s1 di la.
       labelled_instance h (init labs a b) da nan_fill max_nan_ratio add_ndvi add_ndwi
         calculate_normalizing_dict is_test = Inr (s1, di, la)
       \<and> process_single_file h (init labs a b) da nan_fill max_nan_ratio add_ndvi add_ndwi
           calculate_normalizing_dict is_test True n
         = Inr ((di, fst (process_autoencoder h s1 da la add_ndvi add_ndwi nan_fill is_test
                            calculate_normalizing_dict n)),
                snd (process_autoencoder h s1 da la add_ndvi add_ndwi nan_fill is_test
                       calculate_normalizing_dict n))
       \<and> process_single_file h (init labs a b) da nan_fill max_nan_ratio add_ndvi add_ndwi
           calculate_normalizing_dict is_test False n
         = Inr ((di, None), s1)"
    by (intro exI [of _ s1] exI [of _ di] exI [of _ la])
       (simp add: li process_single_file_Inr [OF li])
next
  fix self di ae self'
  assume "process_single_file h self da nan_fill max_nan_ratio add_ndvi add_ndwi
             calculate_normalizing_dict is_test False n = Inr ((di, ae), self')"
  then show "ae = None"
    by (auto simp: process_single_file_def bind_def split: sum.splits)
qed

theorem autoencoder_sampling_independent_witness:
  "x_coord example_tile \<noteq> [] \<and> y_coord example_tile \<noteq> []
   \<and> labelled_instance example_helpers (init null_first_labels acc0 acc0) example_tile (Flt 0)
         (1 / 2) False False False False
       = Inr (init null_first_labels acc0 acc0, None, None)
   \<and> process_single_file example_helpers (init null_first_labels acc0 acc0) example_tile (Flt 0)
         (1 / 2) False False False False True 2
       = Inr ((None, Some [Flt 0, Flt 0]), init null_first_labels acc0 acc0)
   \<and> process_single_file example_helpers (init null_first_labels acc0 acc0) example_tile (Flt 0)
         (1 / 2) False False False False False 2
       = Inr ((None, None), init null_first_labels acc0 acc0)"
proof -
  have x: "x_coord example_tile \<noteq> []" and y: "y_coord example_tile \<noteq> []"
    by (simp_all add: example_tile_def)
  have li: "labelled_instance example_helpers (init null_first_labels acc0 acc0) example_tile
         (Flt 0) (1 / 2) False False False False
       = Inr (init null_first_labels acc0 acc0, None, None)"
    by (simp add: eval_defs)
  have pa: "process_autoencoder example_helpers s da la False False (Flt 0) False False 2
              = (Some [Flt 0, Flt 0], s)" for s da la
    by (simp add: example_helpers_def numeral_2_eq_2)
  from autoencoder_sampling_independent [OF x y, where h = example_helpers
      and labs = null_first_labels and a = acc0 and b = acc0 and nan_fill = "Flt 0"
      and max_nan_ratio = "1 / 2" and add_ndvi = False and add_ndwi = False
      and calculate_normalizing_dict = False and is_test = False and n = 2]
  have "process_single_file example_helpers (init null_first_labels acc0 acc0) example_tile (Flt 0)
         (1 / 2) False False False False True 2
       = Inr ((None, Some [Flt 0, Flt 0]), init null_first_labels acc0 acc0)
   \<and> process_single_file example_helpers (init null_first_labels acc0 acc0) example_tile (Flt 0)
         (1 / 2) False False False False False 2
       = Inr ((None, None), init null_first_labels acc0 acc0)"
    unfolding li by (auto simp: pa)
  with x y li show ?thesis by simp
qed

section \<open>The first matching row\<close>

lemma process_single_file_instance_iff:
  "(\<exists>ae s'. process_single_file h self da nan_fill max_nan_ratio add_ndvi add_ndwi
        calculate_normalizing_dict is_test return_autoencoder_instances n = Inr ((di, ae), s'))
   \<longleftrightarrow> (\<exists>s1 la. labelled_instance h self da nan_fill max_nan_ratio add_ndvi add_ndwi
        calculate_normalizing_dict is_test = Inr (s1, di, la))"
proof (cases "labelled_instance h self da nan_fill max_nan_ratio add_ndvi add_ndwi
        calculate_normalizing_dict is_test")
  case (Inl e)
  then show ?thesis by (simp add: process_single_file_def bind_def)
next
  case (Inr r)
  obtain s1 di' la where r: "r = (s1, di', la)" by (cases r)
  show ?thesis
    unfolding process_single_file_Inr [OF Inr [unfolded r]] Inr r by auto
qed

text \<open>The instance that the labelled part builds for a row, a class id and an array.\<close>

lemma labelled_instance_first_row:
  assumes x: "x_coord da \<noteq> []" and y: "y_coord da \<noteq> []"
    and o: "overlapping da (labels self) = l # rest"
  shows "(\<exists>s1 la. labelled_instance h self da nan_fill max_nan_ratio add_ndvi add_ndwi
        calculate_normalizing_dict is_test = Inr (s1, di, la))
    \<longleftrightarrow> (case crop_type l of
           None \<Rightarrow> di = None
         | Some crop \<Rightarrow>
            (case classes_to_index self crop of
               None \<Rightarrow> False
             | Some ci \<Rightarrow>
                di = (case maxed_nan_to_num (labelled_series h da l add_ndvi add_ndwi) nan_fill
                             (Some max_nan_ratio) of
                        None \<Rightarrow> None
                      | Some la \<Rightarrow>
                          Some \<lparr> label_lat = lat l, label_lon = lon l,
                                 instance_lat = fst (nearest (y_coord da) (lat l)),
                                 instance_lon = fst (nearest (x_coord da) (lon l)),
                                 labelled_array = la,
                                 surrounding_array =
                                   Some (nan_to_num (surrounding_series h da l add_ndvi add_ndwi)
                                           nan_fill),
                                 crop_label = crop, crop_int = ci \<rparr>)))"
  by (auto simp: labelled_instance_eq [OF x y] o split: option.splits)

text \<open>
  Claim C6.  When rows of the label table fall inside the tile's bounding box, only the
  first of them is used: two engineers with the same class index whose tables have the
  same first overlapping row return the same instance, whatever the other rows are,
  and the \<^verbatim>\<open>label_lat\<close>, \<^verbatim>\<open>label_lon\<close> and \<^verbatim>\<open>crop_label\<close> of a returned
  instance are those of that first row.
\<close>

theorem first_matching_row_only:
  assumes x: "x_coord da \<noteq> []" and y: "y_coord da \<noteq> []"
    and o1: "overlapping da (labels s1) = l # rest1"
    and o2: "overlapping da (labels s2) = l # rest2"
    and c: "classes_to_index s1 = classes_to_index s2"
  shows "(\<forall>di. (\<exists>ae s'. process_single_file h s1 da nan_fill max_nan_ratio add_ndvi add_ndwi
                 calculate_normalizing_dict is_test return_autoencoder_instances n
               = Inr ((di, ae), s'))
            \<longleftrightarrow> (\<exists>ae s'. process_single_file h s2 da nan_fill max_nan_ratio add_ndvi add_ndwi
                 calculate_normalizing_dict is_test return_autoencoder_instances n
               = Inr ((di, ae), s')))
     \<and> (\<forall>inst ae s'. process_single_file h s1 da nan_fill max_nan_ratio add_ndvi add_ndwi
                 calculate_normalizing_dict is_test return_autoencoder_instances n
               = Inr ((Some inst, ae), s')
            \<longrightarrow> label_lat inst = lat l \<and> label_lon inst = lon l
                \<and> crop_type l = Some (crop_label inst))"
proof (rule conjI)
  show "\<forall>di. (\<exists>ae s'. process_single_file h s1 da nan_fill max_nan_ratio add_ndvi add_ndwi
                 calculate_normalizing_dict is_test return_autoencoder_instances n
               = Inr ((di, ae), s'))
            \<longleftrightarrow> (\<exists>ae s'. process_single_file h s2 da nan_fill max_nan_ratio add_ndvi add_ndwi
                 calculate_normalizing_dict is_test return_autoencoder_instances n
               = Inr ((di, ae), s'))"
    unfolding process_single_file_instance_iff
      labelled_instance_first_row [OF x y o1] labelled_instance_first_row [OF x y o2] c
    by simp
next
  show "\<forall>inst ae s'. process_single_file h s1 da nan_fill max_nan_ratio add_ndvi add_ndwi
                 calculate_normalizing_dict is_test return_autoencoder_instances n
               = Inr ((Some inst, ae), s')
            \<longrightarrow> label_lat inst = lat l \<and> label_lon inst = lon l
                \<and> crop_type l = Some (crop_label inst)"
  proof (intro allI impI)
    fix inst ae s'
    assume "process_single_file h s1 da nan_fill max_nan_ratio add_ndvi add_ndwi
                 calculate_normalizing_dict is_test return_autoencoder_instances n
               = Inr ((Some inst, ae), s')"
    then have "\<exists>ae s'. process_single_file h s1 da nan_fill max_nan_ratio add_ndvi add_ndwi
                 calculate_normalizing_dict is_test return_autoencoder_instances n
               = Inr ((Some inst, ae), s')"
      by blast
    then have "case crop_type l of
           None \<Rightarrow> Some inst = None
         | Some crop \<Rightarrow>
            (case classes_to_index s1 crop of
               None \<Rightarrow> False
             | Some ci \<Rightarrow>
                Some inst = (case maxed_nan_to_num (labelled_series h da l add_ndvi add_ndwi) nan_fill
                             (Some max_nan_ratio) of
                        None \<Rightarrow> None
                      | Some la \<Rightarrow>
                          Some \<lparr> label_lat = lat l, label_lon = lon l,
                                 instance_lat = fst (nearest (y_coord da) (lat l)),
                                 instance_lon = fst (nearest (x_coord da) (lon l)),
                                 labelled_array = la,
                                 surrounding_array =
                                   Some (nan_to_num (surrounding_series h da l add_ndvi add_ndwi)
                                           nan_fill),
                                 crop_label = crop, crop_int = ci \<rparr>))"
      unfolding process_single_file_instance_iff labelled_instance_first_row [OF x y o1] .
    then show "label_lat inst = lat l \<and> label_lon inst = lon l
                \<and> crop_type l = Some (crop_label inst)"
      by (auto split: option.splits)
  qed
qed

theorem first_matching_row_only_witness:
  "x_coord example_tile \<noteq> [] \<and> y_coord example_tile \<noteq> []
   \<and> overlapping example_tile (labels (init example_labels acc0 acc0))
       = hd example_labels # [example_labels ! 1]
   \<and> overlapping example_tile (labels (init example_labels acc0 acc0\<lparr>labels := [hd example_labels]\<rparr>))
       = hd example_labels # []
   \<and> (\<exists>ae s'. process_single_file example_helpers
          (init example_labels acc0 acc0\<lparr>labels := [hd example_labels]\<rparr>) example_tile
          (Flt 0) (1 / 2) False False False False False 0
        = Inr ((Some \<lparr> label_lat = 0, label_lon = 0, instance_lat = 0, instance_lon = 0,
                        labelled_array = [Flt 1, Flt 2],
                        surrounding_array = Some [Flt 1, Flt 2],
                        crop_label = ''maize'', crop_int = 0 \<rparr>, ae), s'))
   \<and> lat (hd example_labels) = 0 \<and> lon (hd example_labels) = 0
   \<and> crop_type (hd example_labels) = Some ''maize''"
proof -
  have x: "x_coord example_tile \<noteq> []" and y: "y_coord example_tile \<noteq> []"
    by (simp_all add: example_tile_def)
  have o1: "overlapping example_tile (labels (init example_labels acc0 acc0))
       = hd example_labels # [example_labels ! 1]"
    by (simp add: eval_defs)
  have o2: "overlapping example_tile
        (labels (init example_labels acc0 acc0\<lparr>labels := [hd example_labels]\<rparr>))
       = hd example_labels # []"
    by (simp add: eval_defs)
  have c: "classes_to_index (init example_labels acc0 acc0)
     = classes_to_index (init example_labels acc0 acc0\<lparr>labels := [hd example_labels]\<rparr>)"
    by simp
  have p: "\<exists>ae s'. process_single_file example_helpers (init example_labels acc0 acc0) example_tile
          (Flt 0) (1 / 2) False False False False False 0
        = Inr ((Some \<lparr> label_lat = 0, label_lon = 0, instance_lat = 0, instance_lon = 0,
                        labelled_array = [Flt 1, Flt 2],
                        surrounding_array = Some [Flt 1, Flt 2],
                        crop_label = ''maize'', crop_int = 0 \<rparr>, ae), s')"
    by (simp add: eval_defs)
  from first_matching_row_only [OF x y o1 o2 c, where h = example_helpers and nan_fill = "Flt 0"
      and max_nan_ratio = "1 / 2" and add_ndvi = False and add_ndwi = False
      and calculate_normalizing_dict = False and is_test = False
      and return_autoencoder_instances = False and n = 0] p
  have "\<exists>ae s'. process_single_file example_helpers
          (init example_labels acc0 acc0\<lparr>labels := [hd example_labels]\<rparr>) example_tile
          (Flt 0) (1 / 2) False False False False False 0
        = Inr ((Some \<lparr> label_lat = 0, label_lon = 0, instance_lat = 0, instance_lon = 0,
                        labelled_array = [Flt 1, Flt 2],
                        surrounding_array = Some [Flt 1, Flt 2],
                        crop_label = ''maize'', crop_int = 0 \<rparr>, ae), s')"
    by blast
  with x y o1 o2 show ?thesis by (simp add: example_labels_def)
qed

section \<open>The surrounding array\<close>




section \<open>The normalization accumulators\<close>

lemma accumulators_init [simp]:
  "normalizing_dict_interim (init labs a b) = a"
  "surrounding_normalizing_dict_interim (init labs a b) = b"
  by (simp_all add: init_def Let_def)

lemma accumulators_folded:
  "normalizing_dict_interim (folded h self la sa)
     = update_normalizing_values (welford h) (normalizing_dict_interim self) la"
  "surrounding_normalizing_dict_interim (folded h self la sa)
     = update_normalizing_values (welford h) (surrounding_normalizing_dict_interim self) (Some sa)"
  by (simp_all add: folded_def)

lemma n_samples_update:
  "update_normalizing_values upd acc None = acc"
  "n_samples (update_normalizing_values upd acc (Some array)) = n_samples acc + 1"
  by (simp_all add: update_normalizing_values_def)



section \<open>End to end: one maize label\<close>

lemma nan_ratio_clean: "NaN \<notin> set array \<Longrightarrow> nan_ratio array = 0"
proof -
  assume "NaN \<notin> set array"
  then have "filter (\<lambda>v. v = NaN) array = []" by (auto simp: filter_empty_conv)
  then show ?thesis by (simp add: nan_ratio_def)
qed

lemma nan_to_num_clean: "NaN \<notin> set array \<Longrightarrow> nan_to_num array nan = array"
  unfolding nan_to_num_def by (induction array) auto

lemma maxed_nan_to_num_clean:
  "NaN \<notin> set array \<Longrightarrow> 0 \<le> r \<Longrightarrow> maxed_nan_to_num array nan (Some r) = Some array"
  by (simp add: maxed_nan_to_num_def nan_ratio_clean nan_to_num_clean)

lemma derive_indices_clean:
  assumes "NaN \<notin> set array"
    and "\<forall>array. NaN \<notin> set array \<longrightarrow> NaN \<notin> set (calculate_ndvi h array)"
    and "\<forall>array. NaN \<notin> set array \<longrightarrow> NaN \<notin> set (calculate_ndwi h array)"
  shows "NaN \<notin> set (derive_indices h add_ndvi add_ndwi array)"
  using assms by (simp add: derive_indices_def Let_def)

lemma card_seen_before_0:
  "card {c. Some c \<in> set vs} = 0 \<longleftrightarrow> set vs \<subseteq> {None}"
proof -
  have "finite (Some -` set vs)" by (intro finite_vimageI) auto
  then have "finite {c. Some c \<in> set vs}" by (simp add: vimage_def)
  then have "card {c. Some c \<in> set vs} = 0 \<longleftrightarrow> {c. Some c \<in> set vs} = {}" by simp
  also have "\<dots> \<longleftrightarrow> set vs \<subseteq> {None}"
  proof
    assume e: "{c. Some c \<in> set vs} = {}"
    show "set vs \<subseteq> {None}"
    proof
      fix v assume "v \<in> set vs"
      with e show "v \<in> {None}" by (cases v) auto
    qed
  next
    assume "set vs \<subseteq> {None}"
    then show "{c. Some c \<in> set vs} = {}" by auto
  qed
  finally show ?thesis .
qed

text \<open>
  Claim C9, as amended.  For a tile (with at least one column and one row) whose
  bounding box contains exactly one label point, of crop type maize, with no NaN
  reflectance value, index derivations that introduce no NaN, a non-negative
  \<^verbatim>\<open>max_nan_ratio\<close>, \<^verbatim>\<open>add_ndvi\<close> and \<^verbatim>\<open>calculate_normalizing_dict\<close>
  true and \<^verbatim>\<open>is_test\<close> false, \<^verbatim>\<open>process_single_file\<close> returns an instance
  whose \<^verbatim>\<open>crop_label\<close> is maize, whose \<^verbatim>\<open>crop_int\<close> is the number of distinct
  crop types that the label table shows before its first maize row (0 exactly when
  there is none), whose labelled array is the labelled series and whose surrounding
  array is present; and the labelled accumulator of the engineer left by the labelled
  part (the engineer returned, unless the autoencoder sampling runs on it) has counted
  exactly one more sample.
\<close>

theorem single_maize_label_end_to_end:
  assumes x: "x_coord da \<noteq> []" and y: "y_coord da \<noteq> []"
    and one: "overlapping da labs = [l]"
    and maize: "crop_type l = Some ''maize''"
    and clean: "\<forall>lo la. NaN \<notin> set (sel da lo la)"
    and ndvi: "\<forall>array. NaN \<notin> set array \<longrightarrow> NaN \<notin> set (calculate_ndvi h array)"
    and ndwi: "\<forall>array. NaN \<notin> set array \<longrightarrow> NaN \<notin> set (calculate_ndwi h array)"
    and ratio: "0 \<le> max_nan_ratio"
  shows "\<exists>inst s1.
      process_single_file h (init labs a b) da nan_fill max_nan_ratio True add_ndwi True False
          return_autoencoder_instances n
        = (if return_autoencoder_instances
           then Inr ((Some inst,
                      fst (process_autoencoder h s1 da (Some (labelled_array inst)) True add_ndwi
                             nan_fill False True n)),
                     snd (process_autoencoder h s1 da (Some (labelled_array inst)) True add_ndwi
                            nan_fill False True n))
           else Inr ((Some inst, None), s1))
      \<and> crop_label inst = ''maize''
      \<and> crop_int inst
          = int (card {c. Some c \<in> set (takeWhile (\<lambda>u. u \<noteq> Some ''maize'') (map crop_type labs))})
      \<and> (crop_int inst = 0
          \<longleftrightarrow> set (takeWhile (\<lambda>u. u \<noteq> Some ''maize'') (map crop_type labs)) \<subseteq> {None})
      \<and> labelled_array inst = labelled_series h da l True add_ndwi
      \<and> surrounding_array inst
          = Some (nan_to_num (surrounding_series h da l True add_ndwi) nan_fill)
      \<and> n_samples (normalizing_dict_interim s1) = n_samples a + 1"
proof -
  have cl: "NaN \<notin> set (labelled_series h da l True add_ndwi)"
    unfolding labelled_series_def using clean ndvi ndwi
    by (intro derive_indices_clean) auto
  have m: "maxed_nan_to_num (labelled_series h da l True add_ndwi) nan_fill (Some max_nan_ratio)
             = Some (labelled_series h da l True add_ndwi)"
    using cl ratio by (rule maxed_nan_to_num_clean)
  from labelled_instance_init_some [OF x y one maize, where h = h and a = a and b = b
      and nan_fill = nan_fill and max_nan_ratio = max_nan_ratio and add_ndvi = True
      and add_ndwi = add_ndwi and calculate_normalizing_dict = True and is_test = False]
  obtain ci where ci: "classes_to_index (init labs a b) ''maize'' = Some ci"
    and li: "labelled_instance h (init labs a b) da nan_fill max_nan_ratio True add_ndwi True False
      = Inr (folded h (init labs a b) (Some (labelled_series h da l True add_ndwi))
               (nan_to_num (surrounding_series h da l True add_ndwi) nan_fill),
             Some \<lparr> label_lat = lat l, label_lon = lon l,
                    instance_lat = fst (nearest (y_coord da) (lat l)),
                    instance_lon = fst (nearest (x_coord da) (lon l)),
                    labelled_array = labelled_series h da l True add_ndwi,
                    surrounding_array =
                      Some (nan_to_num (surrounding_series h da l True add_ndwi) nan_fill),
                    crop_label = ''maize'', crop_int = ci \<rparr>,
             Some (labelled_series h da l True add_ndwi))"
    unfolding m by auto
  from ci have civ: "ci = int (card {c. Some c \<in> set (takeWhile (\<lambda>u. u \<noteq> Some ''maize'')
                                   (map crop_type labs))})"
    by (simp add: classes_to_index_lookup split: if_splits)
  let ?inst = "\<lparr> label_lat = lat l, label_lon = lon l,
                    instance_lat = fst (nearest (y_coord da) (lat l)),
                    instance_lon = fst (nearest (x_coord da) (lon l)),
                    labelled_array = labelled_series h da l True add_ndwi,
                    surrounding_array =
                      Some (nan_to_num (surrounding_series h da l True add_ndwi) nan_fill),
                    crop_label = ''maize'', crop_int = ci \<rparr>"
  let ?s1 = "folded h (init labs a b) (Some (labelled_series h da l True add_ndwi))
               (nan_to_num (surrounding_series h da l True add_ndwi) nan_fill)"
  have z: "ci = 0 \<longleftrightarrow> set (takeWhile (\<lambda>u. u \<noteq> Some ''maize'') (map crop_type labs)) \<subseteq> {None}"
    unfolding civ using card_seen_before_0 [of "takeWhile (\<lambda>u. u \<noteq> Some ''maize'') (map crop_type labs)"]
    by simp
  show ?thesis
    by (intro exI [of _ ?inst] exI [of _ ?s1])
       (simp add: process_single_file_Inr [OF li] civ [symmetric] z accumulators_folded
          n_samples_update)
qed

theorem single_maize_label_end_to_end_witness:
  "x_coord example_tile \<noteq> [] \<and> y_coord example_tile \<noteq> []
   \<and> overlapping example_tile tea_then_maize_labels = [tea_then_maize_labels ! 1]
   \<and> crop_type (tea_then_maize_labels ! 1) = Some ''maize''
   \<and> (0::real) \<le> 1 / 2
   \<and> (\<exists>inst s1.
         process_single_file example_helpers (init tea_then_maize_labels acc0 acc0) example_tile
             (Flt 0) (1 / 2) True False True False False 0
           = Inr ((Some inst, None), s1)
         \<and> crop_label inst = ''maize''
         \<and> crop_int inst = 1
         \<and> labelled_array inst = [Flt 1, Flt 2, Flt 0]
         \<and> surrounding_array inst = Some [Flt 1, Flt 2, Flt 0]
         \<and> n_samples (normalizing_dict_interim s1) = n_samples acc0 + 1)"
proof -
  have x: "x_coord example_tile \<noteq> []" and y: "y_coord example_tile \<noteq> []"
    by (simp_all add: example_tile_def)
  have one: "overlapping example_tile tea_then_maize_labels = [tea_then_maize_labels ! 1]"
    by (simp add: eval_defs)
  have maize: "crop_type (tea_then_maize_labels ! 1) = Some ''maize''"
    by (simp add: tea_then_maize_labels_def)
  have clean: "\<forall>lo la. NaN \<notin> set (sel example_tile lo la)"
    by (simp add: example_tile_def)
  have ndvi: "\<forall>array. NaN \<notin> set array \<longrightarrow> NaN \<notin> set (calculate_ndvi example_helpers array)"
    by (simp add: example_helpers_def)
  have ndwi: "\<forall>array. NaN \<notin> set array \<longrightarrow> NaN \<notin> set (calculate_ndwi example_helpers array)"
    by (simp add: example_helpers_def)
  have ratio: "(0::real) \<le> 1 / 2" by simp
  have p: "process_single_file example_helpers (init tea_then_maize_labels acc0 acc0) example_tile
             (Flt 0) (1 / 2) True False True False False 0
      = Inr ((Some \<lparr> label_lat = 0, label_lon = 0, instance_lat = 0, instance_lon = 0,
                      labelled_array = [Flt 1, Flt 2, Flt 0],
                      surrounding_array = Some [Flt 1, Flt 2, Flt 0],
                      crop_label = ''maize'', crop_int = 1 \<rparr>, None),
             init tea_then_maize_labels acc0 acc0
               \<lparr> normalizing_dict_interim := \<lparr>n_samples = 1, stats = ()\<rparr>,
                 surrounding_normalizing_dict_interim := \<lparr>n_samples = 1, stats = ()\<rparr> \<rparr>)"
    by (simp add: eval_defs)
  from single_maize_label_end_to_end [OF x y one maize clean ndvi ndwi ratio,
      where a = acc0 and b = acc0 and nan_fill = "Flt 0" and add_ndwi = False
      and return_autoencoder_instances = False and n = 0]
  obtain inst s1 where
    r: "process_single_file example_helpers (init tea_then_maize_labels acc0 acc0) example_tile
             (Flt 0) (1 / 2) True False True False False 0
           = Inr ((Some inst, None), s1)"
    and l: "crop_label inst = ''maize''"
    and n: "n_samples (normalizing_dict_interim s1) = n_samples acc0 + 1"
    by auto
  from r p have i: "inst = \<lparr> label_lat = 0, label_lon = 0, instance_lat = 0, instance_lon = 0,
                      labelled_array = [Flt 1, Flt 2, Flt 0],
                      surrounding_array = Some [Flt 1, Flt 2, Flt 0],
                      crop_label = ''maize'', crop_int = 1 \<rparr>"
    by simp
  have "\<exists>inst s1.
         process_single_file example_helpers (init tea_then_maize_labels acc0 acc0) example_tile
             (Flt 0) (1 / 2) True False True False False 0
           = Inr ((Some inst, None), s1)
         \<and> crop_label inst = ''maize''
         \<and> crop_int inst = 1
         \<and> labelled_array inst = [Flt 1, Flt 2, Flt 0]
         \<and> surrounding_array inst = Some [Flt 1, Flt 2, Flt 0]
         \<and> n_samples (normalizing_dict_interim s1) = n_samples acc0 + 1"
    using r l n i by (intro exI [of _ inst] exI [of _ s1]) simp
  with x y one maize ratio show ?thesis by blast
qed

text \<open>
  The claim as stated fails: the bounding box of this tile contains exactly one label
  point, of crop type maize, there is no NaN, and the instance is returned with the
  class id 1, since the table has a tea row (outside the tile) before the maize row.
\<close>

theorem single_maize_label_class_id_counterexample:
  "overlapping example_tile tea_then_maize_labels = [tea_then_maize_labels ! 1]
   \<and> crop_type (tea_then_maize_labels ! 1) = Some ''maize''
   \<and> process_single_file example_helpers (init tea_then_maize_labels acc0 acc0) example_tile
        (Flt 0) (1 / 2) True False True False False 0
      = Inr ((Some \<lparr> label_lat = 0, label_lon = 0, instance_lat = 0, instance_lon = 0,
                      labelled_array = [Flt 1, Flt 2, Flt 0],
                      surrounding_array = Some [Flt 1, Flt 2, Flt 0],
                      crop_label = ''maize'', crop_int = 1 \<rparr>, None),
             init tea_then_maize_labels acc0 acc0
               \<lparr> normalizing_dict_interim := \<lparr>n_samples = 1, stats = ()\<rparr>,
                 surrounding_normalizing_dict_interim := \<lparr>n_samples = 1, stats = ()\<rparr> \<rparr>)"
  by (simp add: eval_defs)

end
